theory Spec2Isabelle
  imports Main "HOL-Library.Char_ord" "HOL-Library.List_Lexorder"
begin

section \<open>The urlshort redirect service\<close>

text \<open>
  The package \<open>urlshort\<close> builds HTTP handlers that redirect a request whose path is
  a key of a path-to-URL table and hand every other request to a fallback handler;
  \<open>main\<close> chains four of them in front of a default mux. The embedding keeps the
  names of the Go source. A Go \<open>map[string]string\<close> is a map \<open>string \<rightharpoonup> string\<close>,
  a \<open>[]byte\<close> is a \<open>string\<close> (a list of bytes), and a result pair \<open>(handler, error)\<close>,
  of which the source always sets exactly one side, is a sum with the error to the left.
\<close>

subsection \<open>Requests, responses, errors\<close>

text \<open>
  Of a request the handlers read \<open>r.URL.Path\<close> only; the default mux also reads
  \<open>r.Method\<close> and \<open>r.RequestURI\<close>. A response records what the
  handler did with its \<open>ResponseWriter\<close>: either the call
  \<open>http.Redirect(w, r, url, code)\<close>, or a body written with the status the server
  sends for it.
\<close>

record request =
  http_method :: string
  request_uri :: string
  url_path :: string

datatype response =
    Redirect string nat
  | Body nat string

type_synonym handler = "request \<Rightarrow> response"

datatype error = Error string

datatype panic_value = PanicError error | NilPointerDereference

text \<open>
  A call either returns, or ends the process through \<open>log.Fatal\<close> (which prints the
  error and exits with status 1), or panics.
\<close>

datatype 'a outcome = Returned 'a | Fatal error | Panicked panic_value

definition StatusOK :: nat where
  "StatusOK = 200"

definition StatusFound :: nat where
  "StatusFound = 302"

definition StatusMovedPermanently :: nat where
  "StatusMovedPermanently = 301"

definition StatusBadRequest :: nat where
  "StatusBadRequest = 400"

definition StatusNotFound :: nat where
  "StatusNotFound = 404"

subsection \<open>The lookup handlers over in-memory tables\<close>

text \<open>
  \<open>path, ok := pathsToUrls[r.URL.Path]\<close>: the comma-ok lookup is the map application,
  \<open>ok\<close> being \<open>Some\<close>.
\<close>

definition MapHandler :: "(string \<rightharpoonup> string) \<Rightarrow> handler \<Rightarrow> handler" where
  "MapHandler pathsToUrls fallback =
     (\<lambda>r. case pathsToUrls (url_path r) of
             Some path \<Rightarrow> Redirect path StatusFound
           | None \<Rightarrow> fallback r)"

text \<open>
  Indexing a Go map with a missing key (also a nil map) yields the zero value, the empty
  string.
\<close>

definition index :: "(string \<rightharpoonup> string) \<Rightarrow> string \<Rightarrow> string" where
  "index m k = (case m k of Some v \<Rightarrow> v | None \<Rightarrow> [])"

fun buildRedirectMap_loop ::
  "(string \<rightharpoonup> string) \<Rightarrow> (string \<rightharpoonup> string) list \<Rightarrow> (string \<rightharpoonup> string)" where
  "buildRedirectMap_loop redirects [] = redirects"
| "buildRedirectMap_loop redirects (m # data) =
     buildRedirectMap_loop (redirects(index m ''path'' \<mapsto> index m ''url'')) data"

definition buildRedirectMap :: "(string \<rightharpoonup> string) list \<Rightarrow> (string \<rightharpoonup> string)" where
  "buildRedirectMap data = buildRedirectMap_loop Map.empty data"

text \<open>
  \<open>yaml.Unmarshal\<close> and \<open>json.Unmarshal\<close> belong to libraries outside the repository,
  so a decoder is a parameter: it takes the bytes and yields what it stored into the
  target slice together with its error result, as the Go call does.
\<close>

type_synonym unmarshal = "string \<Rightarrow> (string \<rightharpoonup> string) list \<times> error option"

definition YAMLHandler :: "unmarshal \<Rightarrow> string \<Rightarrow> handler \<Rightarrow> error + handler" where
  "YAMLHandler yaml_Unmarshal yml fallback =
     (case yaml_Unmarshal yml of
        (ymlPaths, Some err) \<Rightarrow> Inl err
      | (ymlPaths, None) \<Rightarrow>
          (let paths = buildRedirectMap ymlPaths in
           Inr (\<lambda>r. case paths (url_path r) of
                       Some path \<Rightarrow> Redirect path StatusFound
                     | None \<Rightarrow> fallback r)))"

definition JSONHandler :: "unmarshal \<Rightarrow> string \<Rightarrow> handler \<Rightarrow> error + handler" where
  "JSONHandler json_Unmarshal data fallback =
     (case json_Unmarshal data of
        (jsonPaths, Some err) \<Rightarrow> Inl err
      | (jsonPaths, None) \<Rightarrow>
          (let paths = buildRedirectMap jsonPaths in
           Inr (\<lambda>r. case paths (url_path r) of
                       Some path \<Rightarrow> Redirect path StatusFound
                     | None \<Rightarrow> fallback r)))"

subsection \<open>The Bolt store\<close>

text \<open>
  The key-value store is the library \<open>github.com/boltdb/bolt\<close>; of it the model keeps
  what \<open>BoltHandler\<close> uses. A bucket is the list of its key/value pairs in the order
  a cursor visits them (ascending keys), a database is the table of its top-level
  buckets by name, and a transaction works on a copy of that table. A \<open>*bolt.Bucket\<close>
  is the name of the bucket inside the transaction, \<open>None\<close> being the nil pointer.
  \<open>tx.CreateBucket\<close> returns a nil bucket and \<open>ErrBucketExists\<close> when the name is
  taken; a method called through a nil \<open>*bolt.Bucket\<close> reads a field of the receiver
  and so panics with a nil pointer dereference. \<open>db.Update\<close> commits when the function
  returns nil and rolls back when it returns an error or panics; it does not recover
  the panic. Opening a file that does not exist creates an empty database. A commit is
  taken to succeed, and the deferred \<open>db.Close\<close> leaves the contents of the file as
  they are.
\<close>

type_synonym bucket = "(string \<times> string) list"

type_synonym db = "string \<rightharpoonup> bucket"

datatype dbfile = Absent | Unreachable error | Stored db

definition ErrBucketExists :: error where
  "ErrBucketExists = Error ''bucket already exists''"

definition ErrBucketNameRequired :: error where
  "ErrBucketNameRequired = Error ''bucket name required''"

definition ErrKeyRequired :: error where
  "ErrKeyRequired = Error ''key required''"

definition ErrKeyTooLarge :: error where
  "ErrKeyTooLarge = Error ''key too large''"

definition MaxKeySize :: nat where
  "MaxKeySize = 32768"

definition bolt_Open :: "(string \<Rightarrow> dbfile) \<Rightarrow> string \<Rightarrow> error + db" where
  "bolt_Open files boltFile =
     (case files boltFile of
        Absent \<Rightarrow> Inr Map.empty
      | Unreachable err \<Rightarrow> Inl err
      | Stored d \<Rightarrow> Inr d)"

definition tx_CreateBucket :: "db \<Rightarrow> string \<Rightarrow> (string option \<times> error option) \<times> db" where
  "tx_CreateBucket tx name =
     (if name = [] then ((None, Some ErrBucketNameRequired), tx)
      else if tx name \<noteq> None then ((None, Some ErrBucketExists), tx)
      else ((Some name, None), tx(name \<mapsto> [])))"

definition tx_Bucket :: "db \<Rightarrow> string \<Rightarrow> string option" where
  "tx_Bucket tx name = (if tx name \<noteq> None then Some name else None)"

fun put_entry :: "string \<Rightarrow> string \<Rightarrow> bucket \<Rightarrow> bucket" where
  "put_entry k v [] = [(k, v)]"
| "put_entry k v ((k', v') # es) =
     (if k = k' then (k, v) # es
      else if k < k' then (k, v) # (k', v') # es
      else (k', v') # put_entry k v es)"

definition entries :: "db \<Rightarrow> string \<Rightarrow> bucket" where
  "entries tx name = (case tx name of Some es \<Rightarrow> es | None \<Rightarrow> [])"

definition bucket_Put ::
  "db \<Rightarrow> string option \<Rightarrow> string \<Rightarrow> string \<Rightarrow> (error option \<times> db) outcome" where
  "bucket_Put tx b key val =
     (case b of
        None \<Rightarrow> Panicked NilPointerDereference
      | Some name \<Rightarrow>
          (if key = [] then Returned (Some ErrKeyRequired, tx)
           else if MaxKeySize < length key then Returned (Some ErrKeyTooLarge, tx)
           else Returned (None, tx(name \<mapsto> put_entry key val (entries tx name)))))"

definition bucket_Cursor :: "db \<Rightarrow> string option \<Rightarrow> bucket outcome" where
  "bucket_Cursor tx b =
     (case b of
        None \<Rightarrow> Panicked NilPointerDereference
      | Some name \<Rightarrow> Returned (entries tx name))"

definition db_Update ::
  "db \<Rightarrow> (db \<Rightarrow> (error option \<times> db) outcome) \<Rightarrow> (error option \<times> db) outcome" where
  "db_Update d fn =
     (case fn d of
        Returned (None, tx) \<Rightarrow> Returned (None, tx)
      | Returned (Some err, tx) \<Rightarrow> Returned (Some err, d)
      | Fatal err \<Rightarrow> Fatal err
      | Panicked p \<Rightarrow> Panicked p)"

definition db_View :: "db \<Rightarrow> (db \<Rightarrow> (error option \<times> 'a) outcome) \<Rightarrow> (error option \<times> 'a) outcome" where
  "db_View d fn = fn d"

subsection \<open>The handler over the Bolt store\<close>

text \<open>
  \<open>fmt.Errorf("create bucket: %s", err2)\<close>: the verb \<open>%s\<close> prints the message of an
  error and \<open>%!s(<nil>)\<close> for nil.
\<close>

definition Errorf :: "string \<Rightarrow> error option \<Rightarrow> error" where
  "Errorf prefix e =
     Error (prefix @ (case e of Some (Error msg) \<Rightarrow> msg | None \<Rightarrow> ''%!s(<nil>)''))"

text \<open>
  The function handed to \<open>db.Update\<close>. Its first test reads \<open>err\<close>, which at that
  line is the variable of the enclosing \<open>BoltHandler\<close> (the result of \<open>bolt.Open\<close>);
  the closure's own \<open>err\<close> is declared one statement later. The captured variable is
  the argument \<open>err\<close> here; \<open>BoltHandler\<close> gets as far as \<open>db.Update\<close> only when
  it is nil.
\<close>

definition BoltHandler_update :: "error option \<Rightarrow> db \<Rightarrow> (error option \<times> db) outcome" where
  "BoltHandler_update err tx =
     (case tx_CreateBucket tx ''URLRedirects'' of
        ((b, err2), tx1) \<Rightarrow>
          (if err \<noteq> None then Returned (Some (Errorf ''create bucket: '' err2), tx1)
           else
             (case bucket_Put tx1 b ''/urlshort-bolt'' ''https://github.com/bcpoole/urlshort'' of
                Returned (Some err', tx2) \<Rightarrow> Returned (Some (Errorf ''put: '' err2), tx2)
              | Returned (None, tx2) \<Rightarrow> Returned (None, tx2)
              | Fatal e \<Rightarrow> Fatal e
              | Panicked p \<Rightarrow> Panicked p)))"

text \<open>
  The cursor loop \<open>for k, v := c.First(); k != nil; k, v = c.Next()\<close> of the function
  handed to \<open>db.View\<close>, storing into the captured map \<open>paths\<close>.
\<close>

fun cursor_loop :: "(string \<rightharpoonup> string) \<Rightarrow> bucket \<Rightarrow> (string \<rightharpoonup> string)" where
  "cursor_loop paths [] = paths"
| "cursor_loop paths ((k, v) # rest) = cursor_loop (paths(k \<mapsto> v)) rest"

definition BoltHandler_view ::
  "(string \<rightharpoonup> string) \<Rightarrow> db \<Rightarrow> (error option \<times> (string \<rightharpoonup> string)) outcome" where
  "BoltHandler_view paths tx =
     (let b = tx_Bucket tx ''URLRedirects'' in
      case bucket_Cursor tx b of
        Returned c \<Rightarrow> Returned (None, cursor_loop paths c)
      | Fatal e \<Rightarrow> Fatal e
      | Panicked p \<Rightarrow> Panicked p)"

text \<open>
  \<open>BoltHandler_paths\<close> is the body of \<open>BoltHandler\<close> up to its \<open>return\<close>: it yields
  the local map \<open>paths\<close> and the files as the call leaves them. The results of
  \<open>db.Update\<close> and \<open>db.View\<close> are dropped, as in the source.
\<close>

definition BoltHandler_paths ::
  "(string \<Rightarrow> dbfile) \<Rightarrow> string \<Rightarrow> ((string \<rightharpoonup> string) \<times> (string \<Rightarrow> dbfile)) outcome" where
  "BoltHandler_paths files boltFile =
     (case bolt_Open files boltFile of
        Inl err \<Rightarrow> Fatal err
      | Inr d \<Rightarrow>
          (case db_Update d (BoltHandler_update None) of
             Fatal e \<Rightarrow> Fatal e
           | Panicked p \<Rightarrow> Panicked p
           | Returned (_, d1) \<Rightarrow>
               (case db_View d1 (BoltHandler_view Map.empty) of
                  Fatal e \<Rightarrow> Fatal e
                | Panicked p \<Rightarrow> Panicked p
                | Returned (_, paths) \<Rightarrow> Returned (paths, files(boltFile := Stored d1)))))"

definition BoltHandler ::
  "(string \<Rightarrow> dbfile) \<Rightarrow> string \<Rightarrow> handler \<Rightarrow> ((error + handler) \<times> (string \<Rightarrow> dbfile)) outcome" where
  "BoltHandler files boltFile fallback =
     (case BoltHandler_paths files boltFile of
        Fatal e \<Rightarrow> Fatal e
      | Panicked p \<Rightarrow> Panicked p
      | Returned (paths, files') \<Rightarrow>
          Returned (Inr (\<lambda>r. case paths (url_path r) of
                               Some path \<Rightarrow> Redirect path StatusFound
                             | None \<Rightarrow> fallback r), files'))"

subsection \<open>The default mux and main\<close>

text \<open>
  An \<open>http.ServeMux\<close> of \<open>net/http\<close> is its table of patterns, here without host
  names, as \<open>main\<close> registers none. A pattern that ends in a slash names a subtree, any
  other pattern matches the equal path, and the longest matching pattern wins; a path
  that matches none is answered with 404.
\<close>

type_synonym ServeMux = "(string \<times> handler) list"

definition NewServeMux :: ServeMux where
  "NewServeMux = []"

definition HandleFunc :: "ServeMux \<Rightarrow> string \<Rightarrow> handler \<Rightarrow> ServeMux" where
  "HandleFunc mux pattern h = (pattern, h) # mux"

definition pathMatch :: "string \<Rightarrow> string \<Rightarrow> bool" where
  "pathMatch pattern path =
     (if pattern = [] then False
      else if last pattern \<noteq> CHR ''/'' then pattern = path
      else length pattern \<le> length path \<and> take (length pattern) path = pattern)"

fun match :: "ServeMux \<Rightarrow> string \<Rightarrow> (string \<times> handler) option" where
  "match [] path = None"
| "match ((pattern, h) # mux) path =
     (case match mux path of
        None \<Rightarrow> (if pathMatch pattern path then Some (pattern, h) else None)
      | Some (pattern', h') \<Rightarrow>
          (if pathMatch pattern path \<and> length pattern' < length pattern
           then Some (pattern, h) else Some (pattern', h')))"

definition NotFound :: handler where
  "NotFound r = Body StatusNotFound (''404 page not found'' @ [CHR 0x0A])"

definition mux_handler :: "ServeMux \<Rightarrow> string \<Rightarrow> handler" where
  "mux_handler mux path = (case match mux path of Some (pattern, h) \<Rightarrow> h | None \<Rightarrow> NotFound)"

text \<open>
  Before it consults the table the mux brings the request path into canonical form:
  \<open>cleanPath\<close> makes the path rooted, lets \<open>path.Clean\<close> drop empty and \<open>.\<close> elements and
  resolve \<open>..\<close> elements, and puts a trailing slash back. \<open>path.Clean\<close> works on the
  elements between slashes; a \<open>..\<close> removes the element before it, is dropped at the
  root of a rooted path, and is kept at the front of a relative one.
\<close>

fun split_slash :: "string \<Rightarrow> string list" where
  "split_slash [] = [[]]"
| "split_slash (c # cs) =
     (if c = CHR ''/'' then [] # split_slash cs
      else (case split_slash cs of
              [] \<Rightarrow> [[c]]
            | e # es \<Rightarrow> (c # e) # es))"

fun join_slash :: "string list \<Rightarrow> string" where
  "join_slash [] = []"
| "join_slash [e] = e"
| "join_slash (e # e' # es) = e @ CHR ''/'' # join_slash (e' # es)"

fun clean_elems :: "bool \<Rightarrow> string list \<Rightarrow> string list \<Rightarrow> string list" where
  "clean_elems rooted out [] = rev out"
| "clean_elems rooted out (e # es) =
     (if e = [] \<or> e = ''.'' then clean_elems rooted out es
      else if e = ''..'' then
        (case out of
           [] \<Rightarrow> (if rooted then clean_elems rooted out es else clean_elems rooted [e] es)
         | e' # out' \<Rightarrow>
             (if e' = ''..'' then clean_elems rooted (e # out) es
              else clean_elems rooted out' es))
      else clean_elems rooted (e # out) es)"

definition path_Clean :: "string \<Rightarrow> string" where
  "path_Clean path =
     (if path = [] then ''.''
      else
        (let rooted = (hd path = CHR ''/'');
             out = (if rooted then ''/'' else []) @ join_slash (clean_elems rooted [] (split_slash path))
         in if out = [] then ''.'' else out))"

definition cleanPath :: "string \<Rightarrow> string" where
  "cleanPath p =
     (if p = [] then ''/''
      else
        (let p = (if hd p \<noteq> CHR ''/'' then CHR ''/'' # p else p);
             np = path_Clean p
         in if last p = CHR ''/'' \<and> np \<noteq> ''/'' then
              (if length p = length np + 1 \<and> take (length np) p = np then p
               else np @ ''/'')
            else np))"

text \<open>
  \<open>mux.Handler\<close> chooses the handler of a request. A path whose pattern with a slash
  appended is registered, while the path itself is not, is redirected to that pattern.
  Except for the method \<open>CONNECT\<close>, a path that differs from its cleaned form is
  redirected to the cleaned form and the table is not consulted for it. Both redirects
  are \<open>RedirectHandler\<close> with \<open>StatusMovedPermanently\<close>; its URL is \<open>r.URL\<close> with the new
  path, which for the requests of this model (no query string) is written as that path.
  \<open>mux.ServeHTTP\<close> refuses the request URI \<open>*\<close> with status 400 and otherwise runs the
  chosen handler.
\<close>

definition RedirectHandler :: "string \<Rightarrow> nat \<Rightarrow> handler" where
  "RedirectHandler url code = (\<lambda>r. Redirect url code)"

definition registered :: "ServeMux \<Rightarrow> string \<Rightarrow> bool" where
  "registered mux pattern = (pattern \<in> set (map fst mux))"

definition shouldRedirect :: "ServeMux \<Rightarrow> string \<Rightarrow> bool" where
  "shouldRedirect mux path =
     (if registered mux path then False
      else if path = [] then False
      else if registered mux (path @ ''/'') then last path \<noteq> CHR ''/''
      else False)"

definition Handler :: "ServeMux \<Rightarrow> request \<Rightarrow> handler" where
  "Handler mux r =
     (if http_method r = ''CONNECT'' then
        (if shouldRedirect mux (url_path r)
         then RedirectHandler (url_path r @ ''/'') StatusMovedPermanently
         else mux_handler mux (url_path r))
      else
        (let path = cleanPath (url_path r) in
         if shouldRedirect mux path then RedirectHandler (path @ ''/'') StatusMovedPermanently
         else if path \<noteq> url_path r then RedirectHandler path StatusMovedPermanently
         else mux_handler mux (url_path r)))"

definition ServeHTTP :: "ServeMux \<Rightarrow> handler" where
  "ServeHTTP mux r =
     (if request_uri r = ''*'' then Body StatusBadRequest []
      else Handler mux r r)"

text \<open>
  \<open>fmt.Fprintln(w, "Hello, world!")\<close> writes the text and a newline; a handler that
  writes a body without setting a status answers with 200.
\<close>

definition Fprintln :: "string \<Rightarrow> string" where
  "Fprintln s = s @ [CHR 0x0A]"

definition hello :: handler where
  "hello r = Body StatusOK (Fprintln ''Hello, world!'')"

definition defaultMux :: ServeMux where
  "defaultMux = (let mux = NewServeMux in HandleFunc mux ''/'' hello)"

definition pathsToUrls :: "string \<rightharpoonup> string" where
  "pathsToUrls =
     [''/urlshort-godoc'' \<mapsto> ''https://godoc.org/github.com/gophercises/urlshort'',
      ''/yaml-godoc'' \<mapsto> ''https://godoc.org/gopkg.in/yaml.v2'']"

text \<open>
  What \<open>main\<close> reads from outside: the three flag values after \<open>flag.Parse\<close>, the
  file system as \<open>ioutil.ReadFile\<close> answers (the bytes read and the error, both
  returned), the Bolt files, and the two decoders.
\<close>

record env =
  yamlfile :: string
  jsonfile :: string
  boltfile :: string
  ReadFile :: "string \<Rightarrow> string \<times> error option"
  bolt_files :: "string \<Rightarrow> dbfile"
  yaml_Unmarshal :: unmarshal
  json_Unmarshal :: unmarshal

text \<open>
  How \<open>main\<close> ends: it calls \<open>http.ListenAndServe\<close> with an address and a handler, or
  the process exits through \<open>log.Fatal\<close>, or it panics.
\<close>

datatype process = ListenAndServe string handler | Exit error | Panic panic_value

definition main :: "env \<Rightarrow> process" where
  "main e =
     (let mux = defaultMux;
          mapHandler = MapHandler pathsToUrls (ServeHTTP mux)
      in case BoltHandler (bolt_files e) (boltfile e) mapHandler of
           Fatal err \<Rightarrow> Exit err
         | Panicked p \<Rightarrow> Panic p
         | Returned (Inl err, files) \<Rightarrow> Panic (PanicError err)
         | Returned (Inr boltHandler, files) \<Rightarrow>
             (case ReadFile e (yamlfile e) of
                (yaml, Some err) \<Rightarrow> Panic (PanicError err)
              | (yaml, None) \<Rightarrow>
                  (case YAMLHandler (yaml_Unmarshal e) yaml boltHandler of
                     Inl err \<Rightarrow> Panic (PanicError err)
                   | Inr yamlHandler \<Rightarrow>
                       (case ReadFile e (jsonfile e) of
                          (jsonData, err) \<Rightarrow>
                            (case JSONHandler (json_Unmarshal e) jsonData yamlHandler of
                               Inl err \<Rightarrow> Panic (PanicError err)
                             | Inr jsonHandler \<Rightarrow> ListenAndServe '':8080'' jsonHandler)))))"

text \<open>The answer of the running server to a request, when \<open>main\<close> got as far as serving.\<close>

definition serve :: "process \<Rightarrow> request \<Rightarrow> response option" where
  "serve p r = (case p of ListenAndServe addr h \<Rightarrow> Some (h r) | Exit err \<Rightarrow> None | Panic v \<Rightarrow> None)"

subsection \<open>Sample configurations\<close>

text \<open>
  Concrete surroundings for the closed theorems below: a file system and a decoder
  given by finite tables. A file that is not in the table cannot be read, and bytes that
  are not in the table are rejected by the decoder.
\<close>

definition files_of :: "(string \<times> string) list \<Rightarrow> string \<Rightarrow> string \<times> error option" where
  "files_of table name =
     (case map_of table name of
        Some bytes \<Rightarrow> (bytes, None)
      | None \<Rightarrow> ([], Some (Error ''no such file or directory'')))"

definition decoder_of :: "(string \<times> (string \<rightharpoonup> string) list) list \<Rightarrow> unmarshal" where
  "decoder_of table data =
     (case map_of table data of
        Some recs \<Rightarrow> (recs, None)
      | None \<Rightarrow> ([], Some (Error ''cannot unmarshal'')))"

definition example_yaml :: string where
  "example_yaml = ''- path: /b'' @ [CHR 0x0A] @ ''  url: https://b.example'' @ [CHR 0x0A]"

definition example_json :: string where
  \<open>example_json = ''[{"path": "/c", "url": "https://c.example"}]''\<close>

definition example_env :: env where
  "example_env =
     \<lparr>yamlfile = ''urlmappings.yaml'', jsonfile = ''urlmappings.json'', boltfile = ''bolt.db'',
      ReadFile = files_of [(''urlmappings.yaml'', example_yaml), (''urlmappings.json'', example_json)],
      bolt_files = (\<lambda>name. Absent),
      yaml_Unmarshal =
        decoder_of [(example_yaml, [[''path'' \<mapsto> ''/b'', ''url'' \<mapsto> ''https://b.example'']])],
      json_Unmarshal =
        decoder_of [(example_json, [[''path'' \<mapsto> ''/c'', ''url'' \<mapsto> ''https://c.example'']])]\<rparr>"

definition collision_json :: string where
  \<open>collision_json = ''[{"path": "/urlshort-godoc", "url": "https://json.example"}]''\<close>

definition collision_env :: env where
  "collision_env =
     example_env\<lparr>
      ReadFile := files_of [(''urlmappings.yaml'', example_yaml), (''urlmappings.json'', collision_json)],
      json_Unmarshal :=
        decoder_of [(collision_json,
          [[''path'' \<mapsto> ''/urlshort-godoc'', ''url'' \<mapsto> ''https://json.example'']])]\<rparr>"

definition malformed_yaml :: string where
  "malformed_yaml = ''- path: [/b''"

definition malformed_env :: env where
  "malformed_env =
     example_env\<lparr>
      ReadFile := files_of [(''urlmappings.yaml'', malformed_yaml), (''urlmappings.json'', example_json)]\<rparr>"

definition locked_env :: env where
  "locked_env = example_env\<lparr>bolt_files := (\<lambda>name. Unreachable (Error ''timeout''))\<rparr>"

definition missing_json_env :: env where
  "missing_json_env =
     example_env\<lparr>ReadFile := files_of [(''urlmappings.yaml'', example_yaml)]\<rparr>"

definition three_yaml :: string where
  "three_yaml =
     ''- path: /a'' @ [CHR 0x0A] @ ''  url: https://a.example'' @ [CHR 0x0A] @
     ''- path: /b'' @ [CHR 0x0A] @ ''  url: https://b.example'' @ [CHR 0x0A] @
     ''- path: /c'' @ [CHR 0x0A] @ ''  url: https://c.example'' @ [CHR 0x0A]"

definition three_records :: "(string \<rightharpoonup> string) list" where
  "three_records =
     [[''path'' \<mapsto> ''/a'', ''url'' \<mapsto> ''https://a.example''],
      [''path'' \<mapsto> ''/b'', ''url'' \<mapsto> ''https://b.example''],
      [''path'' \<mapsto> ''/c'', ''url'' \<mapsto> ''https://c.example'']]"

definition duplicate_json :: string where
  \<open>duplicate_json =
     ''[{"path": "/a", "url": "https://first.example"}, '' @
     ''{"path": "/b", "url": "https://b.example"}, '' @
     ''{"path": "/a", "url": "https://second.example"}]''\<close>

definition duplicate_records :: "(string \<rightharpoonup> string) list" where
  "duplicate_records =
     [[''path'' \<mapsto> ''/a'', ''url'' \<mapsto> ''https://first.example''],
      [''path'' \<mapsto> ''/b'', ''url'' \<mapsto> ''https://b.example''],
      [''path'' \<mapsto> ''/a'', ''url'' \<mapsto> ''https://second.example'']]"

definition sample_yaml_Unmarshal :: unmarshal where
  "sample_yaml_Unmarshal = decoder_of [(three_yaml, three_records)]"

definition sample_json_Unmarshal :: unmarshal where
  "sample_json_Unmarshal = decoder_of [(duplicate_json, duplicate_records)]"

section \<open>Properties\<close>

subsection \<open>The redirect map builder\<close>

lemma buildRedirectMap_loop_map_of:
  "buildRedirectMap_loop redirects data =
     redirects ++ map_of (rev (map (\<lambda>m. (index m ''path'', index m ''url'')) data))"
proof (induction data arbitrary: redirects)
  case Nil
  show ?case by simp
next
  case (Cons m data)
  have "redirects(index m ''path'' \<mapsto> index m ''url'') =
          redirects ++ [index m ''path'' \<mapsto> index m ''url'']"
    by simp
  then show ?case
    by (simp only: buildRedirectMap_loop.simps Cons.IH list.map rev.simps map_of_append
        map_add_assoc map_of.simps fst_conv snd_conv map_add_empty)
qed

lemma buildRedirectMap_map_of:
  "buildRedirectMap data = map_of (rev (map (\<lambda>m. (index m ''path'', index m ''url'')) data))"
  by (simp add: buildRedirectMap_def buildRedirectMap_loop_map_of)

lemma dom_buildRedirectMap:
  "dom (buildRedirectMap data) = (\<lambda>m. index m ''path'') ` set data"
  by (simp add: buildRedirectMap_map_of dom_map_of_conv_image_fst image_image)

lemma buildRedirectMap_append_Cons:
  assumes "\<forall>m' \<in> set ys. index m' ''path'' \<noteq> index m ''path''"
  shows "buildRedirectMap (xs @ m # ys) (index m ''path'') = Some (index m ''url'')"
proof -
  let ?f = "\<lambda>m. (index m ''path'', index m ''url'')"
  have none: "map_of (rev (map ?f ys)) (index m ''path'') = None"
    using assms by (auto simp: map_of_eq_None_iff image_image)
  have "buildRedirectMap (xs @ m # ys) =
          (map_of (rev (map ?f xs)) ++ [index m ''path'' \<mapsto> index m ''url''])
            ++ map_of (rev (map ?f ys))"
    by (simp add: buildRedirectMap_map_of)
  then show ?thesis
    by (simp add: map_add_def none)
qed

text \<open>
  Claim C5. A record without the key \<open>path\<close> puts an entry under the empty string into
  the map, and a record without the key \<open>url\<close> puts the empty string as the value of its
  path; the entry is the final one when no later record carries the same path. The
  builder has no error result.
\<close>

theorem buildRedirectMap_missing_field:
  assumes "data = xs @ m # ys"
  shows "(m ''path'' = None \<longrightarrow>
            [] \<in> dom (buildRedirectMap data) \<and>
            ((\<forall>m' \<in> set ys. index m' ''path'' \<noteq> []) \<longrightarrow>
               buildRedirectMap data [] = Some (index m ''url'')))
       \<and> (m ''url'' = None \<longrightarrow>
            index m ''path'' \<in> dom (buildRedirectMap data) \<and>
            ((\<forall>m' \<in> set ys. index m' ''path'' \<noteq> index m ''path'') \<longrightarrow>
               buildRedirectMap data (index m ''path'') = Some []))"
proof -
  have p: "index m ''path'' \<in> dom (buildRedirectMap data)"
    using assms by (simp add: dom_buildRedirectMap)
  have "m ''path'' = None \<Longrightarrow> index m ''path'' = []"
    and "m ''url'' = None \<Longrightarrow> index m ''url'' = []"
    by (simp_all add: index_def)
  then show ?thesis
    using p buildRedirectMap_append_Cons [of ys m xs] assms by auto
qed

theorem buildRedirectMap_missing_field_witness:
  "buildRedirectMap [[''url'' \<mapsto> ''https://a.example''], [''path'' \<mapsto> ''/b'']] []
     = Some ''https://a.example''
   \<and> buildRedirectMap [[''url'' \<mapsto> ''https://a.example''], [''path'' \<mapsto> ''/b'']] ''/b''
     = Some []"
  using buildRedirectMap_missing_field
      [of "[[''url'' \<mapsto> ''https://a.example''], [''path'' \<mapsto> ''/b'']]" "[]"
          "[''url'' \<mapsto> ''https://a.example'']" "[[''path'' \<mapsto> ''/b'']]"]
    buildRedirectMap_missing_field
      [of "[[''url'' \<mapsto> ''https://a.example''], [''path'' \<mapsto> ''/b'']]"
          "[[''url'' \<mapsto> ''https://a.example'']]" "[''path'' \<mapsto> ''/b'']" "[]"]
  by (simp add: index_def)

text \<open>
  Claim C6. When several records carry one path, the map holds for it the URL of the
  last of them in input order: a record after which no record has the same path
  decides the entry, whatever came before it. The keys of the map are the paths of the
  records, one entry for each.
\<close>

theorem buildRedirectMap_last_write_wins:
  assumes "data = xs @ m # ys"
    and "\<forall>m' \<in> set ys. index m' ''path'' \<noteq> index m ''path''"
  shows "buildRedirectMap data (index m ''path'') = Some (index m ''url'')
         \<and> dom (buildRedirectMap data) = (\<lambda>m. index m ''path'') ` set data"
  using assms by (simp add: buildRedirectMap_append_Cons dom_buildRedirectMap)

theorem buildRedirectMap_last_write_wins_witness:
  "buildRedirectMap
     [[''path'' \<mapsto> ''/a'', ''url'' \<mapsto> ''https://first.example''],
      [''path'' \<mapsto> ''/a'', ''url'' \<mapsto> ''https://second.example''],
      [''path'' \<mapsto> ''/b'', ''url'' \<mapsto> ''https://b.example'']] ''/a''
     = Some ''https://second.example''"
  using buildRedirectMap_last_write_wins
    [of "[[''path'' \<mapsto> ''/a'', ''url'' \<mapsto> ''https://first.example''],
          [''path'' \<mapsto> ''/a'', ''url'' \<mapsto> ''https://second.example''],
          [''path'' \<mapsto> ''/b'', ''url'' \<mapsto> ''https://b.example'']]"
        "[[''path'' \<mapsto> ''/a'', ''url'' \<mapsto> ''https://first.example'']]"
        "[''path'' \<mapsto> ''/a'', ''url'' \<mapsto> ''https://second.example'']"
        "[[''path'' \<mapsto> ''/b'', ''url'' \<mapsto> ''https://b.example'']]"]
  by (simp add: index_def)

subsection \<open>The lookup handlers\<close>

lemma YAMLHandler_MapHandler:
  "YAMLHandler dec yml fallback =
     (case snd (dec yml) of
        Some err \<Rightarrow> Inl err
      | None \<Rightarrow> Inr (MapHandler (buildRedirectMap (fst (dec yml))) fallback))"
  by (simp add: YAMLHandler_def MapHandler_def split: prod.splits option.splits)

lemma JSONHandler_MapHandler:
  "JSONHandler dec data fallback =
     (case snd (dec data) of
        Some err \<Rightarrow> Inl err
      | None \<Rightarrow> Inr (MapHandler (buildRedirectMap (fst (dec data))) fallback))"
  by (simp add: JSONHandler_def MapHandler_def split: prod.splits option.splits)

lemma BoltHandler_MapHandler:
  "BoltHandler files boltFile fallback =
     (case BoltHandler_paths files boltFile of
        Fatal e \<Rightarrow> Fatal e
      | Panicked p \<Rightarrow> Panicked p
      | Returned (paths, files') \<Rightarrow> Returned (Inr (MapHandler paths fallback), files'))"
  by (simp add: BoltHandler_def MapHandler_def split: outcome.splits prod.splits)

lemma BoltHandler_paths_fresh:
  "files boltFile = Absent \<Longrightarrow>
   BoltHandler_paths files boltFile =
     Returned ([''/urlshort-bolt'' \<mapsto> ''https://github.com/bcpoole/urlshort''],
       files(boltFile := Stored [''URLRedirects'' \<mapsto>
         [(''/urlshort-bolt'', ''https://github.com/bcpoole/urlshort'')]]))"
  by (simp add: BoltHandler_paths_def bolt_Open_def db_Update_def db_View_def
      BoltHandler_update_def BoltHandler_view_def tx_CreateBucket_def tx_Bucket_def
      bucket_Put_def bucket_Cursor_def entries_def MaxKeySize_def)

text \<open>
  Claim C3. Each of the four handlers, once built, answers a request whose path is a
  key of its table with \<open>http.Redirect\<close> to the value and status 302, and answers every
  other request with whatever the fallback answers to the same request. The table of
  \<open>YAMLHandler\<close> and \<open>JSONHandler\<close> is the map built from the decoded records, the
  table of \<open>BoltHandler\<close> is the map read from the bucket.
\<close>

theorem lookup_handlers:
  "MapHandler m fallback r =
     (case m (url_path r) of Some url \<Rightarrow> Redirect url 302 | None \<Rightarrow> fallback r)
   \<and> (YAMLHandler yaml_dec yml fallback = Inr h \<longrightarrow>
        (\<exists>recs. yaml_dec yml = (recs, None) \<and>
           h r = (case buildRedirectMap recs (url_path r) of
                    Some url \<Rightarrow> Redirect url 302 | None \<Rightarrow> fallback r)))
   \<and> (JSONHandler json_dec data fallback = Inr h \<longrightarrow>
        (\<exists>recs. json_dec data = (recs, None) \<and>
           h r = (case buildRedirectMap recs (url_path r) of
                    Some url \<Rightarrow> Redirect url 302 | None \<Rightarrow> fallback r)))
   \<and> (BoltHandler files boltFile fallback = Returned (Inr h, files') \<longrightarrow>
        (\<exists>paths. BoltHandler_paths files boltFile = Returned (paths, files') \<and>
           h r = (case paths (url_path r) of
                    Some url \<Rightarrow> Redirect url 302 | None \<Rightarrow> fallback r)))"
proof -
  have a: "MapHandler m fallback r =
     (case m (url_path r) of Some url \<Rightarrow> Redirect url 302 | None \<Rightarrow> fallback r)"
    by (simp add: MapHandler_def StatusFound_def split: option.splits)
  have b: "\<exists>recs. yaml_dec yml = (recs, None) \<and>
           h r = (case buildRedirectMap recs (url_path r) of
                    Some url \<Rightarrow> Redirect url 302 | None \<Rightarrow> fallback r)"
    if "YAMLHandler yaml_dec yml fallback = Inr h"
    using that by (auto simp: YAMLHandler_def StatusFound_def split: prod.splits option.splits)
  have c: "\<exists>recs. json_dec data = (recs, None) \<and>
           h r = (case buildRedirectMap recs (url_path r) of
                    Some url \<Rightarrow> Redirect url 302 | None \<Rightarrow> fallback r)"
    if "JSONHandler json_dec data fallback = Inr h"
    using that by (auto simp: JSONHandler_def StatusFound_def split: prod.splits option.splits)
  have d: "\<exists>paths. BoltHandler_paths files boltFile = Returned (paths, files') \<and>
           h r = (case paths (url_path r) of
                    Some url \<Rightarrow> Redirect url 302 | None \<Rightarrow> fallback r)"
    if "BoltHandler files boltFile fallback = Returned (Inr h, files')"
    using that
    by (auto simp: BoltHandler_def StatusFound_def split: outcome.splits prod.splits option.splits)
  from a b c d show ?thesis by blast
qed

theorem lookup_handlers_witness:
  "map_sum id (\<lambda>h. h \<lparr>http_method = ''GET'', request_uri = ''/b'', url_path = ''/b''\<rparr>)
     (YAMLHandler (yaml_Unmarshal example_env) example_yaml hello)
     = Inr (Redirect ''https://b.example'' 302)
   \<and> map_sum id (\<lambda>h. h \<lparr>http_method = ''GET'', request_uri = ''/b'', url_path = ''/b''\<rparr>)
     (JSONHandler (json_Unmarshal example_env) example_json hello)
     = Inr (Body 200 (''Hello, world!'' @ [CHR 0x0A]))
   \<and> (case BoltHandler (\<lambda>name. Absent) ''bolt.db'' hello of
        Returned (res, files') \<Rightarrow>
          Some (map_sum id (\<lambda>h. h \<lparr>http_method = ''GET'', request_uri = ''/urlshort-bolt'', url_path = ''/urlshort-bolt''\<rparr>) res)
      | Fatal err \<Rightarrow> None
      | Panicked v \<Rightarrow> None)
     = Some (Inr (Redirect ''https://github.com/bcpoole/urlshort'' 302))"
proof -
  let ?b = "\<lparr>http_method = ''GET'', request_uri = ''/b'', url_path = ''/b''\<rparr>"
  let ?k = "\<lparr>http_method = ''GET'', request_uri = ''/urlshort-bolt'', url_path = ''/urlshort-bolt''\<rparr>"
  let ?files = "(\<lambda>name. Absent)(''bolt.db'' := Stored [''URLRedirects'' \<mapsto>
         [(''/urlshort-bolt'', ''https://github.com/bcpoole/urlshort'')]])"
  obtain yh where yh: "YAMLHandler (yaml_Unmarshal example_env) example_yaml hello = Inr yh"
    by (simp add: YAMLHandler_MapHandler example_env_def decoder_of_def)
  obtain jh where jh: "JSONHandler (json_Unmarshal example_env) example_json hello = Inr jh"
    by (simp add: JSONHandler_MapHandler example_env_def decoder_of_def)
  obtain bh where bh: "BoltHandler (\<lambda>name. Absent) ''bolt.db'' hello = Returned (Inr bh, ?files)"
    by (simp add: BoltHandler_MapHandler BoltHandler_paths_fresh)
  have dy: "yaml_Unmarshal example_env example_yaml
              = ([[''path'' \<mapsto> ''/b'', ''url'' \<mapsto> ''https://b.example'']], None)"
    by (simp add: example_env_def decoder_of_def)
  have dj: "json_Unmarshal example_env example_json
              = ([[''path'' \<mapsto> ''/c'', ''url'' \<mapsto> ''https://c.example'']], None)"
    by (simp add: example_env_def decoder_of_def)
  have dp: "BoltHandler_paths (\<lambda>name. Absent) ''bolt.db''
              = Returned ([''/urlshort-bolt'' \<mapsto> ''https://github.com/bcpoole/urlshort''], ?files)"
    by (simp add: BoltHandler_paths_fresh)
  from lookup_handlers [where yaml_dec = "yaml_Unmarshal example_env" and yml = example_yaml
      and fallback = hello and h = yh and r = ?b] yh dy
  have 1: "yh ?b = Redirect ''https://b.example'' 302"
    by (auto simp: buildRedirectMap_def index_def)
  from lookup_handlers [where json_dec = "json_Unmarshal example_env" and data = example_json
      and fallback = hello and h = jh and r = ?b] jh dj
  have 2: "jh ?b = Body 200 (''Hello, world!'' @ [CHR 0x0A])"
    by (auto simp: buildRedirectMap_def index_def hello_def Fprintln_def StatusOK_def)
  from lookup_handlers [where files = "\<lambda>name. Absent" and boltFile = "''bolt.db''"
      and fallback = hello and h = bh and r = ?k and files' = ?files] bh dp
  have 3: "bh ?k = Redirect ''https://github.com/bcpoole/urlshort'' 302"
    by auto
  from 1 2 3 show ?thesis
    by (simp add: yh jh bh)
qed

text \<open>
  Claim C7. When the decoder turns the bytes into the records without error (the bytes
  are a serialisation of the records), \<open>YAMLHandler\<close> and \<open>JSONHandler\<close> serve from
  the map built from these records. The map has one entry for each distinct path; when
  the paths of the \<open>N\<close> records are pairwise distinct it has exactly \<open>N\<close> entries and
  maps the path of every record to the URL of that record; and when paths repeat, a
  path is mapped to the URL of the last record that carries it.
\<close>

theorem roundtrip_entries:
  assumes "dec data = (recs, None)"
  shows "YAMLHandler dec data fallback = Inr (MapHandler (buildRedirectMap recs) fallback)
       \<and> JSONHandler dec data fallback = Inr (MapHandler (buildRedirectMap recs) fallback)
       \<and> card (dom (buildRedirectMap recs)) = card ((\<lambda>m. index m ''path'') ` set recs)
       \<and> (distinct (map (\<lambda>m. index m ''path'') recs) \<longrightarrow>
             card (dom (buildRedirectMap recs)) = length recs \<and>
             (\<forall>m \<in> set recs. buildRedirectMap recs (index m ''path'') = Some (index m ''url'')))
       \<and> (\<forall>xs m ys.
             recs = xs @ m # ys \<and> (\<forall>m' \<in> set ys. index m' ''path'' \<noteq> index m ''path'') \<longrightarrow>
             buildRedirectMap recs (index m ''path'') = Some (index m ''url''))"
proof -
  have handlers: "YAMLHandler dec data fallback = Inr (MapHandler (buildRedirectMap recs) fallback)"
    "JSONHandler dec data fallback = Inr (MapHandler (buildRedirectMap recs) fallback)"
    using assms by (simp_all add: YAMLHandler_MapHandler JSONHandler_MapHandler)
  have count: "card (dom (buildRedirectMap recs)) = card ((\<lambda>m. index m ''path'') ` set recs)"
    by (simp add: dom_buildRedirectMap)
  have n: "card (dom (buildRedirectMap recs)) = length recs"
    if "distinct (map (\<lambda>m. index m ''path'') recs)"
    using distinct_card [OF that] by (simp add: dom_buildRedirectMap)
  have last: "buildRedirectMap recs (index m ''path'') = Some (index m ''url'')"
    if "recs = xs @ m # ys" and "\<forall>m' \<in> set ys. index m' ''path'' \<noteq> index m ''path''"
    for xs m ys
    unfolding that(1) using that(2) by (rule buildRedirectMap_append_Cons)
  have each: "buildRedirectMap recs (index m ''path'') = Some (index m ''url'')"
    if d: "distinct (map (\<lambda>m. index m ''path'') recs)" and m: "m \<in> set recs" for m
  proof -
    from m obtain xs ys where recs: "recs = xs @ m # ys"
      by (auto dest: split_list)
    with d have "index m ''path'' \<notin> (\<lambda>m. index m ''path'') ` set ys"
      by simp
    then have "\<forall>m' \<in> set ys. index m' ''path'' \<noteq> index m ''path''"
      by (metis (mono_tags, lifting) imageI)
    with recs show ?thesis
      by (rule last)
  qed
  from handlers count n each last show ?thesis by blast
qed

theorem roundtrip_entries_witness:
  "YAMLHandler sample_yaml_Unmarshal three_yaml hello
     = Inr (MapHandler (buildRedirectMap three_records) hello)
   \<and> card (dom (buildRedirectMap three_records)) = 3
   \<and> buildRedirectMap three_records ''/a'' = Some ''https://a.example''
   \<and> buildRedirectMap three_records ''/b'' = Some ''https://b.example''
   \<and> buildRedirectMap three_records ''/c'' = Some ''https://c.example''
   \<and> JSONHandler sample_json_Unmarshal duplicate_json hello
     = Inr (MapHandler (buildRedirectMap duplicate_records) hello)
   \<and> card (dom (buildRedirectMap duplicate_records)) = 2
   \<and> buildRedirectMap duplicate_records ''/a'' = Some ''https://second.example''
   \<and> buildRedirectMap duplicate_records ''/b'' = Some ''https://b.example''"
proof -
  have y: "sample_yaml_Unmarshal three_yaml = (three_records, None)"
    by (simp add: sample_yaml_Unmarshal_def decoder_of_def)
  have j: "sample_json_Unmarshal duplicate_json = (duplicate_records, None)"
    by (simp add: sample_json_Unmarshal_def decoder_of_def)
  note three = roundtrip_entries [where dec = sample_yaml_Unmarshal and data = three_yaml
      and recs = three_records and fallback = hello, OF y]
  note dup = roundtrip_entries [where dec = sample_json_Unmarshal and data = duplicate_json
      and recs = duplicate_records and fallback = hello, OF j]
  have d: "distinct (map (\<lambda>m. index m ''path'') three_records)"
    by (simp add: three_records_def index_def)
  from three d have
    1: "YAMLHandler sample_yaml_Unmarshal three_yaml hello
          = Inr (MapHandler (buildRedirectMap three_records) hello)" and
    2: "card (dom (buildRedirectMap three_records)) = length three_records" and
    3: "\<forall>m \<in> set three_records.
          buildRedirectMap three_records (index m ''path'') = Some (index m ''url'')"
    by blast+
  from 2 have 2: "card (dom (buildRedirectMap three_records)) = 3"
    by (simp add: three_records_def)
  from 3 have 3: "buildRedirectMap three_records ''/a'' = Some ''https://a.example''"
    "buildRedirectMap three_records ''/b'' = Some ''https://b.example''"
    "buildRedirectMap three_records ''/c'' = Some ''https://c.example''"
    by (simp_all add: three_records_def index_def)
  from dup have
    4: "JSONHandler sample_json_Unmarshal duplicate_json hello
          = Inr (MapHandler (buildRedirectMap duplicate_records) hello)" and
    5: "card (dom (buildRedirectMap duplicate_records))
          = card ((\<lambda>m. index m ''path'') ` set duplicate_records)" and
    l: "\<And>xs m ys. duplicate_records = xs @ m # ys \<Longrightarrow>
          \<forall>m' \<in> set ys. index m' ''path'' \<noteq> index m ''path'' \<Longrightarrow>
          buildRedirectMap duplicate_records (index m ''path'') = Some (index m ''url'')"
    by blast+
  have "(\<lambda>m. index m ''path'') ` set duplicate_records = {''/a'', ''/b''}"
    by (auto simp: duplicate_records_def index_def)
  with 5 have 5: "card (dom (buildRedirectMap duplicate_records)) = 2"
    by simp
  from l [of "[[''path'' \<mapsto> ''/a'', ''url'' \<mapsto> ''https://first.example''],
               [''path'' \<mapsto> ''/b'', ''url'' \<mapsto> ''https://b.example'']]"
             "[''path'' \<mapsto> ''/a'', ''url'' \<mapsto> ''https://second.example'']" "[]"]
  have 6: "buildRedirectMap duplicate_records ''/a'' = Some ''https://second.example''"
    by (simp add: duplicate_records_def index_def)
  from l [of "[[''path'' \<mapsto> ''/a'', ''url'' \<mapsto> ''https://first.example'']]"
             "[''path'' \<mapsto> ''/b'', ''url'' \<mapsto> ''https://b.example'']"
             "[[''path'' \<mapsto> ''/a'', ''url'' \<mapsto> ''https://second.example'']]"]
  have 7: "buildRedirectMap duplicate_records ''/b'' = Some ''https://b.example''"
    by (simp add: duplicate_records_def index_def)
  from 1 2 3 4 5 6 7 show ?thesis by blast
qed

subsection \<open>The handler over the Bolt store\<close>

lemma BoltHandler_paths_bucket_exists:
  assumes "files boltFile = Stored d" and "d ''URLRedirects'' \<noteq> None"
  shows "BoltHandler_paths files boltFile = Panicked NilPointerDereference"
  using assms
  by (simp add: BoltHandler_paths_def bolt_Open_def db_Update_def BoltHandler_update_def
      tx_CreateBucket_def bucket_Put_def)

lemma BoltHandler_paths_ReturnedD:
  assumes "BoltHandler_paths files boltFile = Returned (paths, files')"
  shows "\<exists>d. files' boltFile = Stored d \<and> d ''URLRedirects'' \<noteq> None"
  using assms
  by (auto simp: BoltHandler_paths_def bolt_Open_def db_Update_def db_View_def
      BoltHandler_update_def BoltHandler_view_def tx_CreateBucket_def tx_Bucket_def
      bucket_Put_def bucket_Cursor_def MaxKeySize_def
      split: dbfile.splits sum.splits outcome.splits prod.splits option.splits if_splits)

lemma BoltHandler_paths_twice:
  assumes "BoltHandler_paths files boltFile = Returned (paths, files')"
  shows "BoltHandler_paths files' boltFile = Panicked NilPointerDereference"
  using BoltHandler_paths_ReturnedD [OF assms] BoltHandler_paths_bucket_exists by blast

text \<open>
  Claim C8. On a store file that does not exist yet the first construction creates the
  bucket, writes the seed entry and reads the one-entry map. The second construction on
  the file it left finds the bucket: \<open>tx.CreateBucket\<close> returns a nil bucket and
  \<open>ErrBucketExists\<close>, the test that follows reads the \<open>err\<close> of \<open>bolt.Open\<close> (nil)
  where the messages name \<open>err2\<close>, and \<open>b.Put\<close> runs on the nil bucket and panics.
  So the second open does not yield the snapshot of the first; it ends the process.
\<close>

theorem BoltHandler_second_open:
  "BoltHandler_paths (\<lambda>name. Absent) ''bolt.db'' =
     Returned ([''/urlshort-bolt'' \<mapsto> ''https://github.com/bcpoole/urlshort''],
       (\<lambda>name. Absent)(''bolt.db'' := Stored [''URLRedirects'' \<mapsto>
         [(''/urlshort-bolt'', ''https://github.com/bcpoole/urlshort'')]]))
   \<and> BoltHandler_paths
       ((\<lambda>name. Absent)(''bolt.db'' := Stored [''URLRedirects'' \<mapsto>
         [(''/urlshort-bolt'', ''https://github.com/bcpoole/urlshort'')]])) ''bolt.db''
       = Panicked NilPointerDereference
   \<and> BoltHandler
       ((\<lambda>name. Absent)(''bolt.db'' := Stored [''URLRedirects'' \<mapsto>
         [(''/urlshort-bolt'', ''https://github.com/bcpoole/urlshort'')]])) ''bolt.db'' hello
       = Panicked NilPointerDereference"
  by (simp add: BoltHandler_paths_fresh BoltHandler_paths_bucket_exists BoltHandler_def)

text \<open>
  Claim C9. \<open>BoltHandler\<close> never returns an error to its caller: whenever it returns,
  the error result is nil (the right side of the sum). A failure of \<open>bolt.Open\<close> ends
  the process through \<open>log.Fatal\<close> inside \<open>BoltHandler\<close>, so \<open>main\<close> exits there and
  its own test of the error stays unused.
\<close>

theorem BoltHandler_no_error_result:
  "(\<forall>err files'. BoltHandler files boltFile fallback \<noteq> Returned (Inl err, files'))
   \<and> (bolt_Open files boltFile = Inl err \<longrightarrow> BoltHandler files boltFile fallback = Fatal err)
   \<and> (bolt_Open (bolt_files e) (boltfile e) = Inl err \<longrightarrow> main e = Exit err)"
proof -
  have a: "\<forall>err files'. BoltHandler files boltFile fallback \<noteq> Returned (Inl err, files')"
    by (simp add: BoltHandler_def split: outcome.splits prod.splits)
  have b: "BoltHandler files boltFile fallback = Fatal err"
    if "bolt_Open files boltFile = Inl err" for files boltFile fallback
    using that by (simp add: BoltHandler_def BoltHandler_paths_def)
  have c: "main e = Exit err" if "bolt_Open (bolt_files e) (boltfile e) = Inl err"
    by (simp add: main_def b [OF that])
  from a b c show ?thesis by blast
qed

theorem BoltHandler_no_error_result_witness:
  "BoltHandler (bolt_files locked_env) ''bolt.db'' hello = Fatal (Error ''timeout'')
   \<and> main locked_env = Exit (Error ''timeout'')"
proof -
  have o: "bolt_Open (bolt_files locked_env) ''bolt.db'' = Inl (Error ''timeout'')"
    by (simp add: locked_env_def bolt_Open_def)
  have o': "bolt_Open (bolt_files locked_env) (boltfile locked_env) = Inl (Error ''timeout'')"
    by (simp add: locked_env_def example_env_def bolt_Open_def)
  from BoltHandler_no_error_result [of "bolt_files locked_env" "''bolt.db''" hello "Error ''timeout''"] o
    BoltHandler_no_error_result [of _ _ _ "Error ''timeout''" locked_env] o'
  show ?thesis by blast
qed

subsection \<open>The default mux\<close>

lemma path_Clean_rooted:
  "path_Clean (CHR ''/'' # p) \<noteq> [] \<and> hd (path_Clean (CHR ''/'' # p)) = CHR ''/''"
  by (simp add: path_Clean_def Let_def)

lemma cleanPath_rooted: "cleanPath p \<noteq> [] \<and> hd (cleanPath p) = CHR ''/''"
proof (cases "p = []")
  case True
  then show ?thesis by (simp add: cleanPath_def)
next
  case False
  define p' where "p' = (if hd p \<noteq> CHR ''/'' then CHR ''/'' # p else p)"
  define np where "np = path_Clean p'"
  have "\<exists>q. p' = CHR ''/'' # q"
  proof (cases "hd p = CHR ''/''")
    case True
    with False show ?thesis by (cases p) (simp_all add: p'_def)
  next
    case False
    then show ?thesis by (simp add: p'_def)
  qed
  then obtain q where q: "p' = CHR ''/'' # q" ..
  have np: "np \<noteq> []" "hd np = CHR ''/''"
    using path_Clean_rooted [of q] by (simp_all add: np_def q)
  have c: "cleanPath p =
      (if last p' = CHR ''/'' \<and> np \<noteq> ''/'' then
         (if length p' = length np + 1 \<and> take (length np) p' = np then p' else np @ ''/'')
       else np)"
    using False unfolding cleanPath_def Let_def p'_def np_def by (simp only: if_False)
  show ?thesis
    unfolding c using np by (simp add: q)
qed

lemma pathMatch_root: "p \<noteq> [] \<Longrightarrow> hd p = CHR ''/'' \<Longrightarrow> pathMatch ''/'' p"
  by (cases p) (simp_all add: pathMatch_def)

lemma ServeHTTP_defaultMux:
  assumes "request_uri r \<noteq> ''*''" and "cleanPath (url_path r) = url_path r"
  shows "ServeHTTP defaultMux r = hello r"
proof -
  from cleanPath_rooted [of "url_path r"] assms(2)
  have nonempty: "url_path r \<noteq> []" and "hd (url_path r) = CHR ''/''"
    by simp_all
  then have m: "pathMatch ''/'' (url_path r)"
    by (rule pathMatch_root)
  have s: "\<not> shouldRedirect defaultMux (url_path r)"
    using nonempty
    by (simp add: shouldRedirect_def registered_def defaultMux_def HandleFunc_def NewServeMux_def)
  have "mux_handler defaultMux (url_path r) = hello"
    using m by (simp add: mux_handler_def defaultMux_def HandleFunc_def NewServeMux_def)
  with s assms show ?thesis
    by (simp add: ServeHTTP_def Handler_def)
qed

subsection \<open>The chain assembled by main\<close>

lemma main_ListenAndServeD:
  assumes "main e = ListenAndServe addr h"
  shows "\<exists>paths files'.
           BoltHandler_paths (bolt_files e) (boltfile e) = Returned (paths, files') \<and>
           snd (ReadFile e (yamlfile e)) = None \<and>
           snd (yaml_Unmarshal e (fst (ReadFile e (yamlfile e)))) = None \<and>
           snd (json_Unmarshal e (fst (ReadFile e (jsonfile e)))) = None \<and>
           addr = '':8080'' \<and>
           h = MapHandler (buildRedirectMap (fst (json_Unmarshal e (fst (ReadFile e (jsonfile e))))))
                 (MapHandler (buildRedirectMap (fst (yaml_Unmarshal e (fst (ReadFile e (yamlfile e))))))
                    (MapHandler paths (MapHandler pathsToUrls (ServeHTTP defaultMux))))"
  using assms
  by (auto simp: main_def BoltHandler_MapHandler YAMLHandler_MapHandler
      JSONHandler_MapHandler
      split: outcome.splits prod.splits option.splits sum.splits)

lemma main_example_env:
  "main example_env =
     ListenAndServe '':8080''
       (MapHandler [''/c'' \<mapsto> ''https://c.example'']
          (MapHandler [''/b'' \<mapsto> ''https://b.example'']
             (MapHandler [''/urlshort-bolt'' \<mapsto> ''https://github.com/bcpoole/urlshort'']
                (MapHandler pathsToUrls (ServeHTTP defaultMux)))))"
  by (simp add: main_def example_env_def BoltHandler_MapHandler
      BoltHandler_paths_fresh YAMLHandler_MapHandler JSONHandler_MapHandler
      files_of_def decoder_of_def buildRedirectMap_def index_def)

lemma main_not_serving:
  assumes "snd (yaml_Unmarshal e (fst (ReadFile e (yamlfile e)))) \<noteq> None
         \<or> snd (json_Unmarshal e (fst (ReadFile e (jsonfile e)))) \<noteq> None"
  shows "main e \<noteq> ListenAndServe addr h"
  using assms main_ListenAndServeD [of e addr h] by auto

text \<open>
  Claim C1, as stated, fails: \<open>main\<close> serves \<open>jsonHandler\<close>, whose fallback is
  \<open>yamlHandler\<close>, whose fallback is \<open>boltHandler\<close>, whose fallback is \<open>mapHandler\<close>,
  so a path of the static map that the JSON file also maps is redirected to the JSON
  file's URL.
\<close>

theorem static_map_priority_counterexample:
  "pathsToUrls ''/urlshort-godoc'' = Some ''https://godoc.org/github.com/gophercises/urlshort''
   \<and> serve (main collision_env)
         \<lparr>http_method = ''GET'', request_uri = ''/urlshort-godoc'', url_path = ''/urlshort-godoc''\<rparr>
       = Some (Redirect ''https://json.example'' 302)"
  by (simp add: pathsToUrls_def serve_def main_def collision_env_def example_env_def
      BoltHandler_MapHandler
      BoltHandler_paths_fresh YAMLHandler_MapHandler JSONHandler_MapHandler
      files_of_def decoder_of_def buildRedirectMap_def index_def MapHandler_def StatusFound_def)

text \<open>
  Claim C1, amended. The served handler tests the sources in the order JSON file, YAML
  file, Bolt store, static map, default mux: the first of these tables that has the
  request path decides the 302 redirect, and the request goes to the default mux when
  none has it. In particular a path of the static map is redirected to the static map's
  URL when the JSON, YAML and Bolt tables do not have it.
\<close>

theorem main_chain_order:
  assumes "main e = ListenAndServe addr h"
  shows "\<exists>paths files'.
           BoltHandler_paths (bolt_files e) (boltfile e) = Returned (paths, files') \<and>
           (\<forall>r. h r =
              (case buildRedirectMap (fst (json_Unmarshal e (fst (ReadFile e (jsonfile e))))) (url_path r) of
                 Some url \<Rightarrow> Redirect url 302
               | None \<Rightarrow>
              (case buildRedirectMap (fst (yaml_Unmarshal e (fst (ReadFile e (yamlfile e))))) (url_path r) of
                 Some url \<Rightarrow> Redirect url 302
               | None \<Rightarrow>
              (case paths (url_path r) of
                 Some url \<Rightarrow> Redirect url 302
               | None \<Rightarrow>
              (case pathsToUrls (url_path r) of
                 Some url \<Rightarrow> Redirect url 302
               | None \<Rightarrow> ServeHTTP defaultMux r)))))"
proof -
  from main_ListenAndServeD [OF assms] obtain paths files' where
    p: "BoltHandler_paths (bolt_files e) (boltfile e) = Returned (paths, files')" and
    h: "h = MapHandler (buildRedirectMap (fst (json_Unmarshal e (fst (ReadFile e (jsonfile e))))))
                 (MapHandler (buildRedirectMap (fst (yaml_Unmarshal e (fst (ReadFile e (yamlfile e))))))
                    (MapHandler paths (MapHandler pathsToUrls (ServeHTTP defaultMux))))"
    by blast
  have "\<forall>r. h r =
              (case buildRedirectMap (fst (json_Unmarshal e (fst (ReadFile e (jsonfile e))))) (url_path r) of
                 Some url \<Rightarrow> Redirect url 302
               | None \<Rightarrow>
              (case buildRedirectMap (fst (yaml_Unmarshal e (fst (ReadFile e (yamlfile e))))) (url_path r) of
                 Some url \<Rightarrow> Redirect url 302
               | None \<Rightarrow>
              (case paths (url_path r) of
                 Some url \<Rightarrow> Redirect url 302
               | None \<Rightarrow>
              (case pathsToUrls (url_path r) of
                 Some url \<Rightarrow> Redirect url 302
               | None \<Rightarrow> ServeHTTP defaultMux r))))"
    unfolding h
    by (simp add: MapHandler_def StatusFound_def split: option.splits)
  with p show ?thesis by blast
qed

theorem main_chain_order_witness:
  "serve (main example_env)
     \<lparr>http_method = ''GET'', request_uri = ''/yaml-godoc'', url_path = ''/yaml-godoc''\<rparr>
     = Some (Redirect ''https://godoc.org/gopkg.in/yaml.v2'' 302)"
proof -
  let ?r = "\<lparr>http_method = ''GET'', request_uri = ''/yaml-godoc'', url_path = ''/yaml-godoc''\<rparr>"
  obtain h where h: "main example_env = ListenAndServe '':8080'' h"
    by (simp add: main_example_env)
  from main_chain_order [OF h] obtain paths files' where
    p: "BoltHandler_paths (bolt_files example_env) (boltfile example_env) = Returned (paths, files')"
    and r: "h ?r =
      (case buildRedirectMap (fst (json_Unmarshal example_env
               (fst (ReadFile example_env (jsonfile example_env))))) (url_path ?r) of
         Some url \<Rightarrow> Redirect url 302
       | None \<Rightarrow>
      (case buildRedirectMap (fst (yaml_Unmarshal example_env
               (fst (ReadFile example_env (yamlfile example_env))))) (url_path ?r) of
         Some url \<Rightarrow> Redirect url 302
       | None \<Rightarrow>
      (case paths (url_path ?r) of
         Some url \<Rightarrow> Redirect url 302
       | None \<Rightarrow>
      (case pathsToUrls (url_path ?r) of
         Some url \<Rightarrow> Redirect url 302
       | None \<Rightarrow> ServeHTTP defaultMux ?r))))"
    by blast
  from p have paths: "paths = [''/urlshort-bolt'' \<mapsto> ''https://github.com/bcpoole/urlshort'']"
    by (simp add: example_env_def BoltHandler_paths_fresh)
  have "h ?r = Redirect ''https://godoc.org/gopkg.in/yaml.v2'' 302"
    unfolding r paths
    by (simp add: example_env_def files_of_def decoder_of_def buildRedirectMap_def index_def
        pathsToUrls_def)
  then show ?thesis
    by (simp add: h serve_def)
qed

text \<open>
  Claim C2, as stated, fails: the path \<open>//nowhere\<close> is in none of the four tables and
  every handler of the chain hands the request on, but the default mux does not call
  \<open>hello\<close> for it. The path differs from its cleaned form \<open>/nowhere\<close>, so the mux answers
  with a redirect to the cleaned path.
\<close>

theorem unmatched_path_counterexample:
  "pathsToUrls ''//nowhere'' = None
   \<and> BoltHandler_paths (bolt_files example_env) (boltfile example_env) =
       Returned ([''/urlshort-bolt'' \<mapsto> ''https://github.com/bcpoole/urlshort''],
         (bolt_files example_env)(boltfile example_env := Stored [''URLRedirects'' \<mapsto>
           [(''/urlshort-bolt'', ''https://github.com/bcpoole/urlshort'')]]))
   \<and> [''/urlshort-bolt'' \<mapsto> ''https://github.com/bcpoole/urlshort''] ''//nowhere'' = None
   \<and> buildRedirectMap (fst (yaml_Unmarshal example_env
         (fst (ReadFile example_env (yamlfile example_env))))) ''//nowhere'' = None
   \<and> buildRedirectMap (fst (json_Unmarshal example_env
         (fst (ReadFile example_env (jsonfile example_env))))) ''//nowhere'' = None
   \<and> serve (main example_env)
         \<lparr>http_method = ''GET'', request_uri = ''//nowhere'', url_path = ''//nowhere''\<rparr>
       = Some (Redirect ''/nowhere'' StatusMovedPermanently)
   \<and> serve (main example_env)
         \<lparr>http_method = ''GET'', request_uri = ''//nowhere'', url_path = ''//nowhere''\<rparr>
       \<noteq> Some (Body 200 (''Hello, world!'' @ [CHR 0x0A]))"
proof -
  have b: "BoltHandler_paths (bolt_files example_env) (boltfile example_env) =
       Returned ([''/urlshort-bolt'' \<mapsto> ''https://github.com/bcpoole/urlshort''],
         (bolt_files example_env)(boltfile example_env := Stored [''URLRedirects'' \<mapsto>
           [(''/urlshort-bolt'', ''https://github.com/bcpoole/urlshort'')]]))"
    by (rule BoltHandler_paths_fresh) (simp add: example_env_def)
  have c: "cleanPath ''//nowhere'' = ''/nowhere''"
    by (simp add: cleanPath_def path_Clean_def)
  have m: "ServeHTTP defaultMux
        \<lparr>http_method = ''GET'', request_uri = ''//nowhere'', url_path = ''//nowhere''\<rparr>
      = Redirect ''/nowhere'' StatusMovedPermanently"
    by (simp add: ServeHTTP_def Handler_def c shouldRedirect_def registered_def defaultMux_def
        HandleFunc_def NewServeMux_def RedirectHandler_def)
  have s: "serve (main example_env)
         \<lparr>http_method = ''GET'', request_uri = ''//nowhere'', url_path = ''//nowhere''\<rparr>
       = Some (Redirect ''/nowhere'' StatusMovedPermanently)"
    by (simp add: main_example_env serve_def MapHandler_def pathsToUrls_def m)
  have t: "pathsToUrls ''//nowhere'' = None"
    "buildRedirectMap (fst (yaml_Unmarshal example_env
         (fst (ReadFile example_env (yamlfile example_env))))) ''//nowhere'' = None"
    "buildRedirectMap (fst (json_Unmarshal example_env
         (fst (ReadFile example_env (jsonfile example_env))))) ''//nowhere'' = None"
    by (simp_all add: pathsToUrls_def example_env_def files_of_def decoder_of_def
        buildRedirectMap_def index_def)
  from b s t show ?thesis by simp
qed

text \<open>
  Claim C2, amended. For a request whose path is in none of the four tables and which
  the default mux neither refuses nor rewrites (the request URI is not \<open>*\<close> and the path
  is its own cleaned form: rooted, without empty, \<open>.\<close> or \<open>..\<close> elements), every handler
  of the chain hands the request to its fallback, the default mux routes it to \<open>hello\<close>,
  and the response is status 200 with the line \<open>Hello, world!\<close>.
\<close>

theorem unmatched_path_greeting:
  assumes "main e = ListenAndServe addr h"
    and "BoltHandler_paths (bolt_files e) (boltfile e) = Returned (paths, files')"
    and "url_path r \<notin> dom pathsToUrls"
    and "url_path r \<notin> dom paths"
    and "url_path r \<notin> dom (buildRedirectMap (fst (yaml_Unmarshal e (fst (ReadFile e (yamlfile e))))))"
    and "url_path r \<notin> dom (buildRedirectMap (fst (json_Unmarshal e (fst (ReadFile e (jsonfile e))))))"
    and "request_uri r \<noteq> ''*''"
    and "cleanPath (url_path r) = url_path r"
  shows "\<exists>boltHandler yamlHandler.
           BoltHandler (bolt_files e) (boltfile e) (MapHandler pathsToUrls (ServeHTTP defaultMux))
             = Returned (Inr boltHandler, files') \<and>
           YAMLHandler (yaml_Unmarshal e) (fst (ReadFile e (yamlfile e))) boltHandler
             = Inr yamlHandler \<and>
           JSONHandler (json_Unmarshal e) (fst (ReadFile e (jsonfile e))) yamlHandler = Inr h \<and>
           h r = yamlHandler r \<and>
           yamlHandler r = boltHandler r \<and>
           boltHandler r = MapHandler pathsToUrls (ServeHTTP defaultMux) r \<and>
           MapHandler pathsToUrls (ServeHTTP defaultMux) r = ServeHTTP defaultMux r \<and>
           ServeHTTP defaultMux r = Body 200 (''Hello, world!'' @ [CHR 0x0A])"
proof -
  let ?ym = "buildRedirectMap (fst (yaml_Unmarshal e (fst (ReadFile e (yamlfile e)))))"
  let ?jm = "buildRedirectMap (fst (json_Unmarshal e (fst (ReadFile e (jsonfile e)))))"
  let ?mapHandler = "MapHandler pathsToUrls (ServeHTTP defaultMux)"
  let ?boltHandler = "MapHandler paths ?mapHandler"
  let ?yamlHandler = "MapHandler ?ym ?boltHandler"
  from main_ListenAndServeD [OF assms(1)] assms(2) have
    y: "snd (yaml_Unmarshal e (fst (ReadFile e (yamlfile e)))) = None" and
    j: "snd (json_Unmarshal e (fst (ReadFile e (jsonfile e)))) = None" and
    h: "h = MapHandler ?jm ?yamlHandler"
    by auto
  have 1: "BoltHandler (bolt_files e) (boltfile e) ?mapHandler = Returned (Inr ?boltHandler, files')"
    by (simp add: BoltHandler_MapHandler assms(2))
  have 2: "YAMLHandler (yaml_Unmarshal e) (fst (ReadFile e (yamlfile e))) ?boltHandler
             = Inr ?yamlHandler"
    by (simp add: YAMLHandler_MapHandler y)
  have 3: "JSONHandler (json_Unmarshal e) (fst (ReadFile e (jsonfile e))) ?yamlHandler = Inr h"
    by (simp add: JSONHandler_MapHandler j h)
  have miss: "m (url_path r) = None \<Longrightarrow> MapHandler m fb r = fb r" for m fb
    by (simp add: MapHandler_def)
  have 4: "h r = ?yamlHandler r"
    unfolding h using assms(6) by (intro miss) (simp add: domIff)
  have 5: "?yamlHandler r = ?boltHandler r"
    using assms(5) by (intro miss) (simp add: domIff)
  have 6: "?boltHandler r = ?mapHandler r"
    using assms(4) by (intro miss) (simp add: domIff)
  have 7: "?mapHandler r = ServeHTTP defaultMux r"
    using assms(3) by (intro miss) (simp add: domIff)
  have 8: "ServeHTTP defaultMux r = Body 200 (''Hello, world!'' @ [CHR 0x0A])"
    by (simp add: ServeHTTP_defaultMux [OF assms(7,8)] hello_def Fprintln_def StatusOK_def)
  from 1 2 3 4 5 6 7 8 show ?thesis by blast
qed

theorem unmatched_path_greeting_witness:
  "serve (main example_env)
     \<lparr>http_method = ''GET'', request_uri = ''/nowhere'', url_path = ''/nowhere''\<rparr>
     = Some (Body 200 (''Hello, world!'' @ [CHR 0x0A]))"
proof -
  let ?r = "\<lparr>http_method = ''GET'', request_uri = ''/nowhere'', url_path = ''/nowhere''\<rparr>"
  obtain h where h: "main example_env = ListenAndServe '':8080'' h"
    by (simp add: main_example_env)
  have p: "BoltHandler_paths (bolt_files example_env) (boltfile example_env) =
      Returned ([''/urlshort-bolt'' \<mapsto> ''https://github.com/bcpoole/urlshort''],
        (bolt_files example_env)(boltfile example_env := Stored [''URLRedirects'' \<mapsto>
         [(''/urlshort-bolt'', ''https://github.com/bcpoole/urlshort'')]]))"
    by (rule BoltHandler_paths_fresh) (simp add: example_env_def)
  have c: "cleanPath (url_path ?r) = url_path ?r"
    by (simp add: cleanPath_def path_Clean_def)
  have "\<exists>boltHandler yamlHandler.
           BoltHandler (bolt_files example_env) (boltfile example_env)
               (MapHandler pathsToUrls (ServeHTTP defaultMux))
             = Returned (Inr boltHandler,
                 (bolt_files example_env)(boltfile example_env := Stored [''URLRedirects'' \<mapsto>
                   [(''/urlshort-bolt'', ''https://github.com/bcpoole/urlshort'')]])) \<and>
           YAMLHandler (yaml_Unmarshal example_env)
               (fst (ReadFile example_env (yamlfile example_env))) boltHandler
             = Inr yamlHandler \<and>
           JSONHandler (json_Unmarshal example_env)
               (fst (ReadFile example_env (jsonfile example_env))) yamlHandler = Inr h \<and>
           h ?r = yamlHandler ?r \<and>
           yamlHandler ?r = boltHandler ?r \<and>
           boltHandler ?r = MapHandler pathsToUrls (ServeHTTP defaultMux) ?r \<and>
           MapHandler pathsToUrls (ServeHTTP defaultMux) ?r = ServeHTTP defaultMux ?r \<and>
           ServeHTTP defaultMux ?r = Body 200 (''Hello, world!'' @ [CHR 0x0A])"
    by (rule unmatched_path_greeting [OF h p _ _ _ _ _ c])
      (simp_all add: pathsToUrls_def example_env_def files_of_def decoder_of_def
        buildRedirectMap_def index_def)
  then have "h ?r = Body 200 (''Hello, world!'' @ [CHR 0x0A])"
    by auto
  then show ?thesis
    by (simp add: h serve_def)
qed

text \<open>
  Claim C4. When the decoder reports an error, \<open>YAMLHandler\<close> and \<open>JSONHandler\<close>
  return that error and no handler, whatever the decoder had stored into the slice; no
  map is built. In \<open>main\<close> the error is the value of a panic, and a configuration whose
  YAML or JSON bytes the decoder rejects never reaches \<open>http.ListenAndServe\<close>.
\<close>

theorem malformed_input_aborts:
  "(yaml_dec yml = (recs, Some err) \<longrightarrow> YAMLHandler yaml_dec yml fallback = Inl err)
   \<and> (json_dec data = (recs, Some err) \<longrightarrow> JSONHandler json_dec data fallback = Inl err)
   \<and> (BoltHandler (bolt_files e) (boltfile e) (MapHandler pathsToUrls (ServeHTTP defaultMux))
           = Returned (Inr boltHandler, files')
        \<and> ReadFile e (yamlfile e) = (yaml, None)
        \<and> YAMLHandler (yaml_Unmarshal e) yaml boltHandler = Inl err
        \<longrightarrow> main e = Panic (PanicError err))
   \<and> (BoltHandler (bolt_files e) (boltfile e) (MapHandler pathsToUrls (ServeHTTP defaultMux))
           = Returned (Inr boltHandler, files')
        \<and> ReadFile e (yamlfile e) = (yaml, None)
        \<and> YAMLHandler (yaml_Unmarshal e) yaml boltHandler = Inr yamlHandler
        \<and> ReadFile e (jsonfile e) = (jsonData, rerr)
        \<and> JSONHandler (json_Unmarshal e) jsonData yamlHandler = Inl err
        \<longrightarrow> main e = Panic (PanicError err))
   \<and> (snd (yaml_Unmarshal e (fst (ReadFile e (yamlfile e)))) \<noteq> None
        \<or> snd (json_Unmarshal e (fst (ReadFile e (jsonfile e)))) \<noteq> None
        \<longrightarrow> (\<forall>addr h. main e \<noteq> ListenAndServe addr h))"
proof -
  have a: "yaml_dec yml = (recs, Some err) \<longrightarrow> YAMLHandler yaml_dec yml fallback = Inl err"
    by (simp add: YAMLHandler_def)
  have b: "json_dec data = (recs, Some err) \<longrightarrow> JSONHandler json_dec data fallback = Inl err"
    by (simp add: JSONHandler_def)
  have c: "BoltHandler (bolt_files e) (boltfile e) (MapHandler pathsToUrls (ServeHTTP defaultMux))
           = Returned (Inr boltHandler, files')
        \<and> ReadFile e (yamlfile e) = (yaml, None)
        \<and> YAMLHandler (yaml_Unmarshal e) yaml boltHandler = Inl err
        \<longrightarrow> main e = Panic (PanicError err)"
    by (simp add: main_def)
  have d: "BoltHandler (bolt_files e) (boltfile e) (MapHandler pathsToUrls (ServeHTTP defaultMux))
           = Returned (Inr boltHandler, files')
        \<and> ReadFile e (yamlfile e) = (yaml, None)
        \<and> YAMLHandler (yaml_Unmarshal e) yaml boltHandler = Inr yamlHandler
        \<and> ReadFile e (jsonfile e) = (jsonData, rerr)
        \<and> JSONHandler (json_Unmarshal e) jsonData yamlHandler = Inl err
        \<longrightarrow> main e = Panic (PanicError err)"
    by (simp add: main_def)
  have e: "snd (yaml_Unmarshal e (fst (ReadFile e (yamlfile e)))) \<noteq> None
        \<or> snd (json_Unmarshal e (fst (ReadFile e (jsonfile e)))) \<noteq> None
        \<longrightarrow> (\<forall>addr h. main e \<noteq> ListenAndServe addr h)"
    using main_not_serving by blast
  from a b c d e show ?thesis by blast
qed

theorem malformed_input_aborts_witness:
  "YAMLHandler (yaml_Unmarshal malformed_env) malformed_yaml hello = Inl (Error ''cannot unmarshal'')
   \<and> JSONHandler (json_Unmarshal malformed_env) malformed_yaml hello = Inl (Error ''cannot unmarshal'')
   \<and> main malformed_env = Panic (PanicError (Error ''cannot unmarshal''))
   \<and> main missing_json_env = Panic (PanicError (Error ''cannot unmarshal''))
   \<and> serve (main malformed_env) \<lparr>http_method = ''GET'', request_uri = ''/b'', url_path = ''/b''\<rparr> = None"
proof -
  let ?mapHandler = "MapHandler pathsToUrls (ServeHTTP defaultMux)"
  let ?boltHandler = "MapHandler [''/urlshort-bolt'' \<mapsto> ''https://github.com/bcpoole/urlshort''] ?mapHandler"
  let ?yamlHandler = "MapHandler [''/b'' \<mapsto> ''https://b.example''] ?boltHandler"
  let ?files = "(\<lambda>name. Absent)(''bolt.db'' := Stored [''URLRedirects'' \<mapsto>
         [(''/urlshort-bolt'', ''https://github.com/bcpoole/urlshort'')]])"
  have y: "yaml_Unmarshal malformed_env malformed_yaml = ([], Some (Error ''cannot unmarshal''))"
    by (simp add: malformed_env_def example_env_def decoder_of_def malformed_yaml_def example_yaml_def)
  have j: "json_Unmarshal malformed_env malformed_yaml = ([], Some (Error ''cannot unmarshal''))"
    by (simp add: malformed_env_def example_env_def decoder_of_def malformed_yaml_def example_json_def)
  note t = malformed_input_aborts
    [of "yaml_Unmarshal malformed_env" malformed_yaml "[]" "Error ''cannot unmarshal''" hello
        "json_Unmarshal malformed_env" malformed_yaml malformed_env ?boltHandler ?files
        malformed_yaml ?yamlHandler "[]" None]
  have 1: "YAMLHandler (yaml_Unmarshal malformed_env) malformed_yaml hello = Inl (Error ''cannot unmarshal'')"
    using t y by blast
  have 2: "JSONHandler (json_Unmarshal malformed_env) malformed_yaml hello = Inl (Error ''cannot unmarshal'')"
    using t j by blast
  have b: "BoltHandler (bolt_files malformed_env) (boltfile malformed_env) ?mapHandler
             = Returned (Inr ?boltHandler, ?files)"
    by (simp add: BoltHandler_MapHandler BoltHandler_paths_fresh malformed_env_def example_env_def)
  have r: "ReadFile malformed_env (yamlfile malformed_env) = (malformed_yaml, None)"
    by (simp add: malformed_env_def example_env_def files_of_def)
  have yh: "YAMLHandler (yaml_Unmarshal malformed_env) malformed_yaml ?boltHandler
              = Inl (Error ''cannot unmarshal'')"
    by (simp add: YAMLHandler_def y)
  have 3: "main malformed_env = Panic (PanicError (Error ''cannot unmarshal''))"
    using t b r yh by blast
  let ?files = "(\<lambda>name. Absent)(''bolt.db'' := Stored [''URLRedirects'' \<mapsto>
         [(''/urlshort-bolt'', ''https://github.com/bcpoole/urlshort'')]])"
  have b': "BoltHandler (bolt_files missing_json_env) (boltfile missing_json_env) ?mapHandler
             = Returned (Inr ?boltHandler, ?files)"
    by (simp add: BoltHandler_MapHandler BoltHandler_paths_fresh missing_json_env_def example_env_def)
  have r': "ReadFile missing_json_env (yamlfile missing_json_env) = (example_yaml, None)"
    by (simp add: missing_json_env_def example_env_def files_of_def)
  have yh': "YAMLHandler (yaml_Unmarshal missing_json_env) example_yaml ?boltHandler = Inr ?yamlHandler"
    by (simp add: YAMLHandler_MapHandler missing_json_env_def example_env_def decoder_of_def
        buildRedirectMap_def index_def)
  have rj: "ReadFile missing_json_env (jsonfile missing_json_env)
              = ([], Some (Error ''no such file or directory''))"
    by (simp add: missing_json_env_def example_env_def files_of_def)
  have jh: "JSONHandler (json_Unmarshal missing_json_env) [] ?yamlHandler
              = Inl (Error ''cannot unmarshal'')"
    by (simp add: JSONHandler_def missing_json_env_def example_env_def decoder_of_def example_json_def)
  have 4: "main missing_json_env = Panic (PanicError (Error ''cannot unmarshal''))"
    using malformed_input_aborts
      [of _ _ _ "Error ''cannot unmarshal''" _ _ _ missing_json_env ?boltHandler ?files
        example_yaml ?yamlHandler "[]" "Some (Error ''no such file or directory'')"]
      b' r' yh' rj jh by blast
  have "snd (yaml_Unmarshal malformed_env (fst (ReadFile malformed_env (yamlfile malformed_env)))) \<noteq> None"
    by (simp add: r y)
  with t have "\<forall>addr h. main malformed_env \<noteq> ListenAndServe addr h"
    by blast
  then have 5: "serve (main malformed_env) \<lparr>http_method = ''GET'', request_uri = ''/b'', url_path = ''/b''\<rparr> = None"
    by (cases "main malformed_env") (simp_all add: serve_def)
  from 1 2 3 4 5 show ?thesis by blast
qed

text \<open>
  Claim C10. Once \<open>main\<close> has built \<open>yamlHandler\<close>, a failed read of the JSON file
  does not decide how \<open>main\<close> ends: the read error is overwritten, and \<open>main\<close> ends
  as \<open>JSONHandler\<close> on the bytes returned by the read decides. When the read returns no
  bytes and the decoder rejects the empty input, \<open>main\<close> panics with the decoder's
  error.
\<close>

theorem json_read_error_discarded:
  assumes "BoltHandler (bolt_files e) (boltfile e) (MapHandler pathsToUrls (ServeHTTP defaultMux))
             = Returned (Inr boltHandler, files')"
    and "ReadFile e (yamlfile e) = (yaml, None)"
    and "YAMLHandler (yaml_Unmarshal e) yaml boltHandler = Inr yamlHandler"
    and "ReadFile e (jsonfile e) = (jsonData, Some rerr)"
  shows "main e =
           (case JSONHandler (json_Unmarshal e) jsonData yamlHandler of
              Inl err \<Rightarrow> Panic (PanicError err)
            | Inr jsonHandler \<Rightarrow> ListenAndServe '':8080'' jsonHandler)
       \<and> (jsonData = [] \<and> json_Unmarshal e [] = (recs, Some err) \<longrightarrow>
             JSONHandler (json_Unmarshal e) jsonData yamlHandler = Inl err \<and>
             main e = Panic (PanicError err))"
proof -
  have "main e =
           (case JSONHandler (json_Unmarshal e) jsonData yamlHandler of
              Inl err \<Rightarrow> Panic (PanicError err)
            | Inr jsonHandler \<Rightarrow> ListenAndServe '':8080'' jsonHandler)"
    by (simp add: main_def assms)
  moreover have "JSONHandler (json_Unmarshal e) jsonData yamlHandler = Inl err"
    if "jsonData = []" and "json_Unmarshal e [] = (recs, Some err)"
    using that by (simp add: JSONHandler_def)
  ultimately show ?thesis by simp
qed

theorem json_read_error_discarded_witness:
  "ReadFile missing_json_env (jsonfile missing_json_env) = ([], Some (Error ''no such file or directory''))
   \<and> main missing_json_env = Panic (PanicError (Error ''cannot unmarshal''))"
proof -
  let ?mapHandler = "MapHandler pathsToUrls (ServeHTTP defaultMux)"
  let ?boltHandler = "MapHandler [''/urlshort-bolt'' \<mapsto> ''https://github.com/bcpoole/urlshort''] ?mapHandler"
  let ?yamlHandler = "MapHandler [''/b'' \<mapsto> ''https://b.example''] ?boltHandler"
  let ?files = "(\<lambda>name. Absent)(''bolt.db'' := Stored [''URLRedirects'' \<mapsto>
         [(''/urlshort-bolt'', ''https://github.com/bcpoole/urlshort'')]])"
  have b: "BoltHandler (bolt_files missing_json_env) (boltfile missing_json_env) ?mapHandler
             = Returned (Inr ?boltHandler, ?files)"
    by (simp add: BoltHandler_MapHandler BoltHandler_paths_fresh missing_json_env_def example_env_def)
  have r: "ReadFile missing_json_env (yamlfile missing_json_env) = (example_yaml, None)"
    by (simp add: missing_json_env_def example_env_def files_of_def)
  have yh: "YAMLHandler (yaml_Unmarshal missing_json_env) example_yaml ?boltHandler = Inr ?yamlHandler"
    by (simp add: YAMLHandler_MapHandler missing_json_env_def example_env_def decoder_of_def
        buildRedirectMap_def index_def)
  have rj: "ReadFile missing_json_env (jsonfile missing_json_env)
              = ([], Some (Error ''no such file or directory''))"
    by (simp add: missing_json_env_def example_env_def files_of_def)
  have j: "json_Unmarshal missing_json_env [] = ([], Some (Error ''cannot unmarshal''))"
    by (simp add: missing_json_env_def example_env_def decoder_of_def example_json_def)
  from json_read_error_discarded [OF b r yh rj, of "[]" "Error ''cannot unmarshal''"] j rj
  show ?thesis by blast
qed

end
